theory Spec2Isabelle
  imports Complex_Main "HOL-Library.Word"
begin

section \<open>Python floats\<close>

text \<open>
  The server computes with Python floats and numpy float64 arrays. A float is modelled
  as a finite real or one of the three special values of IEEE 754. The special values
  follow the IEEE rules (NaN is contagious and compares false with everything, the
  infinities absorb finite values); arithmetic on finite values is exact real arithmetic,
  so rounding, overflow to infinity and the sign of zero are outside the model.
\<close>

datatype pyfloat = Fin real | PInf | NInf | NaN

fun fneg :: "pyfloat \<Rightarrow> pyfloat" where
  "fneg (Fin a) = Fin (- a)"
| "fneg PInf = NInf"
| "fneg NInf = PInf"
| "fneg NaN = NaN"

fun fadd :: "pyfloat \<Rightarrow> pyfloat \<Rightarrow> pyfloat" where
  "fadd NaN _ = NaN"
| "fadd _ NaN = NaN"
| "fadd (Fin a) (Fin b) = Fin (a + b)"
| "fadd PInf NInf = NaN"
| "fadd NInf PInf = NaN"
| "fadd PInf _ = PInf"
| "fadd _ PInf = PInf"
| "fadd NInf _ = NInf"
| "fadd _ NInf = NInf"

definition fsub :: "pyfloat \<Rightarrow> pyfloat \<Rightarrow> pyfloat" where
  "fsub a b = fadd a (fneg b)"

definition inf_of_sign :: "real \<Rightarrow> pyfloat" where
  "inf_of_sign s = (if s = 0 then NaN else if 0 < s then PInf else NInf)"

fun fmul :: "pyfloat \<Rightarrow> pyfloat \<Rightarrow> pyfloat" where
  "fmul NaN _ = NaN"
| "fmul _ NaN = NaN"
| "fmul (Fin a) (Fin b) = Fin (a * b)"
| "fmul PInf (Fin b) = inf_of_sign b"
| "fmul NInf (Fin b) = inf_of_sign (- b)"
| "fmul (Fin a) PInf = inf_of_sign a"
| "fmul (Fin a) NInf = inf_of_sign (- a)"
| "fmul PInf PInf = PInf"
| "fmul NInf NInf = PInf"
| "fmul PInf NInf = NInf"
| "fmul NInf PInf = NInf"

text \<open>
  Division as numpy does it: a zero divisor gives an infinity or NaN, never an exception.
  (Plain Python floats raise ZeroDivisionError instead; the only plain-Python division of
  the server is by the non-zero constant \<open>BATTERY_CAPACITY_AH * 3600.0\<close>.)
\<close>

fun fdiv :: "pyfloat \<Rightarrow> pyfloat \<Rightarrow> pyfloat" where
  "fdiv NaN _ = NaN"
| "fdiv _ NaN = NaN"
| "fdiv (Fin a) (Fin b) = (if b = 0 then inf_of_sign a else Fin (a / b))"
| "fdiv (Fin a) PInf = Fin 0"
| "fdiv (Fin a) NInf = Fin 0"
| "fdiv PInf (Fin b) = (if 0 \<le> b then PInf else NInf)"
| "fdiv NInf (Fin b) = (if 0 \<le> b then NInf else PInf)"
| "fdiv _ _ = NaN"

fun ftanh :: "pyfloat \<Rightarrow> pyfloat" where
  "ftanh (Fin a) = Fin (tanh a)"
| "ftanh PInf = Fin 1"
| "ftanh NInf = Fin (- 1)"
| "ftanh NaN = NaN"

text \<open>The comparisons \<open><\<close>, \<open><=\<close> and \<open>==\<close>; each is false when an operand is NaN.\<close>

fun flt :: "pyfloat \<Rightarrow> pyfloat \<Rightarrow> bool" where
  "flt NaN _ = False"
| "flt _ NaN = False"
| "flt (Fin a) (Fin b) = (a < b)"
| "flt _ NInf = False"
| "flt PInf _ = False"
| "flt _ _ = True"

fun fle :: "pyfloat \<Rightarrow> pyfloat \<Rightarrow> bool" where
  "fle NaN _ = False"
| "fle _ NaN = False"
| "fle (Fin a) (Fin b) = (a \<le> b)"
| "fle NInf _ = True"
| "fle _ PInf = True"
| "fle _ _ = False"

fun feq :: "pyfloat \<Rightarrow> pyfloat \<Rightarrow> bool" where
  "feq NaN _ = False"
| "feq _ NaN = False"
| "feq a b = (a = b)"

text \<open>
  The builtins \<open>min(a, b)\<close> and \<open>max(a, b)\<close> keep their first argument unless the
  second is strictly smaller (larger), so a NaN in second place is dropped.
\<close>

definition py_min :: "pyfloat \<Rightarrow> pyfloat \<Rightarrow> pyfloat" where
  "py_min a b = (if flt b a then b else a)"

definition py_max :: "pyfloat \<Rightarrow> pyfloat \<Rightarrow> pyfloat" where
  "py_max a b = (if flt a b then b else a)"

text \<open>\<open>np.minimum\<close> and \<open>np.maximum\<close> propagate NaN.\<close>

definition np_minimum :: "pyfloat \<Rightarrow> pyfloat \<Rightarrow> pyfloat" where
  "np_minimum a b = (if a = NaN \<or> b = NaN then NaN else if fle a b then a else b)"

definition np_maximum :: "pyfloat \<Rightarrow> pyfloat \<Rightarrow> pyfloat" where
  "np_maximum a b = (if a = NaN \<or> b = NaN then NaN else if fle a b then b else a)"

section \<open>Configuration\<close>

definition BATTERY_CAPACITY_AH :: pyfloat where
  "BATTERY_CAPACITY_AH = Fin 27"

definition SERIES_CELLS :: pyfloat where
  "SERIES_CELLS = Fin 96"

definition ML_WEIGHT :: pyfloat where
  "ML_WEIGHT = Fin 0.35"

definition EPS :: pyfloat where
  "EPS = Fin (1 / 10 ^ 9)"

text \<open>The expression \<open>max(0.0, min(100.0, r))\<close>, used by every clamp of the server.\<close>

definition clamp_0_100 :: "pyfloat \<Rightarrow> pyfloat" where
  "clamp_0_100 r = py_max (Fin 0) (py_min (Fin 100) r)"

text \<open>The exceptions the two endpoints catch.\<close>

datatype py_error = IndexError | ValueError

section \<open>The physics model: \<open>physics_integrate_soc\<close>\<close>

text \<open>\<open>list(range(n))\<close>; the integers are carried as floats of the same value.\<close>

definition range_times :: "nat \<Rightarrow> pyfloat list" where
  "range_times n = map (\<lambda>i. Fin (real i)) [0..<n]"

text \<open>
  The body of the loop for index \<open>i\<close>:
  \<open>dt = float(times[i] - times[i-1])\<close>,
  \<open>delta_percent = (currents[i-1] * dt) / (BATTERY_CAPACITY_AH * 3600.0) * 100.0\<close> and
  \<open>next_soc = phys[-1] + delta_percent\<close>. The loop runs \<open>i\<close> over \<open>range(1, n)\<close> with
  \<open>len(times) = len(currents) = n\<close>, so every index is in range.
\<close>

definition step_dt :: "pyfloat list \<Rightarrow> nat \<Rightarrow> pyfloat" where
  "step_dt tms i = fsub (tms ! i) (tms ! (i - 1))"

definition delta_percent :: "pyfloat list \<Rightarrow> pyfloat list \<Rightarrow> nat \<Rightarrow> pyfloat" where
  "delta_percent currents tms i =
     fmul (fdiv (fmul (currents ! (i - 1)) (step_dt tms i))
                (fmul BATTERY_CAPACITY_AH (Fin 3600)))
          (Fin 100)"

definition next_soc :: "pyfloat list \<Rightarrow> pyfloat list \<Rightarrow> nat \<Rightarrow> pyfloat \<Rightarrow> pyfloat" where
  "next_soc currents tms i prev = fadd prev (delta_percent currents tms i)"

text \<open>\<open>if next_soc >= 100.0: next_soc = 100.0\<close>\<close>

definition cap_100 :: "pyfloat \<Rightarrow> pyfloat" where
  "cap_100 x = (if fle (Fin 100) x then Fin 100 else x)"

text \<open>
  The \<open>for\<close> loop. The second component of the result is \<open>Some (times[i])\<close> when the
  loop left through the early \<open>return\<close> at step \<open>i\<close>, and \<open>None\<close> when it ran to its end.
\<close>

function integrate_loop ::
  "pyfloat list \<Rightarrow> pyfloat list \<Rightarrow> nat \<Rightarrow> nat \<Rightarrow> pyfloat list \<Rightarrow> pyfloat list \<times> pyfloat option"
where
  "integrate_loop currents tms n i phys =
     (if i < n then
        (if fle (next_soc currents tms i (last phys)) (Fin 0)
         then (phys @ [Fin 0], Some (tms ! i))
         else integrate_loop currents tms n (Suc i)
                (phys @ [clamp_0_100 (cap_100 (next_soc currents tms i (last phys)))]))
      else (phys, None))"
  by pat_completeness auto
termination
  by (relation "measure (\<lambda>(currents, tms, n, i, phys). n - i)") auto

text \<open>
  \<open>times\<close> is \<open>None\<close> or a list. After the loop \<open>times[-1]\<close> is read, which raises
  IndexError on an empty list, that is when \<open>n = 0\<close>.
\<close>

definition effective_times :: "nat \<Rightarrow> pyfloat list option \<Rightarrow> pyfloat list" where
  "effective_times n tms =
     (case tms of
        None \<Rightarrow> range_times n
      | Some ts \<Rightarrow> if length ts \<noteq> n then range_times n else ts)"

definition physics_integrate_soc ::
  "pyfloat list \<Rightarrow> pyfloat list option \<Rightarrow> pyfloat \<Rightarrow> py_error + (pyfloat list \<times> pyfloat)"
where
  "physics_integrate_soc currents tms start_soc =
     (let n = length currents;
          ts = effective_times n tms
      in case integrate_loop currents ts n 1 [start_soc] of
           (phys, Some discharge_time) \<Rightarrow> Inr (phys, discharge_time)
         | (phys, None) \<Rightarrow>
             (if ts = [] then Inl IndexError else Inr (phys, last ts)))"

section \<open>numpy arrays\<close>

text \<open>
  A two-dimensional numpy array: its shape and its entries. Only the entries inside the
  shape are ever read. A dimension may be 0.
\<close>

record 'a ndarray =
  nrows :: nat
  ncols :: nat
  entry :: "nat \<Rightarrow> nat \<Rightarrow> 'a"

text \<open>\<open>np.array\<close> of a list of rows of one length, and \<open>reshape(-1, 1)\<close> of a list.\<close>

definition of_rows :: "'a list list \<Rightarrow> 'a ndarray" where
  "of_rows rs =
     \<lparr>nrows = length rs, ncols = (case rs of [] \<Rightarrow> 0 | r # _ \<Rightarrow> length r),
      entry = (\<lambda>i j. rs ! i ! j)\<rparr>"

definition column :: "'a list \<Rightarrow> 'a ndarray" where
  "column xs = \<lparr>nrows = length xs, ncols = 1, entry = (\<lambda>i j. xs ! i)\<rparr>"

text \<open>An operation with a scalar, entry by entry, and \<open>flatten().tolist()\<close> (row by row).\<close>

definition map_arr :: "('a \<Rightarrow> 'b) \<Rightarrow> 'a ndarray \<Rightarrow> 'b ndarray" where
  "map_arr f A = \<lparr>nrows = nrows A, ncols = ncols A, entry = (\<lambda>i j. f (entry A i j))\<rparr>"

definition flatten :: "'a ndarray \<Rightarrow> 'a list" where
  "flatten A = concat (map (\<lambda>i. map (entry A i) [0..<ncols A]) [0..<nrows A])"

text \<open>
  Broadcasting of a binary operation: in each dimension the two sizes agree, or one of
  them is 1 and the result takes the other (which may be 0); anything else raises
  ValueError. An operand of size 1 in a dimension is read at index 0 there.
\<close>

definition bdim :: "nat \<Rightarrow> nat \<Rightarrow> nat option" where
  "bdim a b = (if a = b then Some a else if a = 1 then Some b else if b = 1 then Some a else None)"

definition bidx :: "nat \<Rightarrow> nat \<Rightarrow> nat" where
  "bidx n i = (if n = 1 then 0 else i)"

definition np_broadcast ::
  "('a \<Rightarrow> 'b \<Rightarrow> 'c) \<Rightarrow> 'a ndarray \<Rightarrow> 'b ndarray \<Rightarrow> py_error + 'c ndarray"
where
  "np_broadcast f A B =
     (case bdim (nrows A) (nrows B) of
        None \<Rightarrow> Inl ValueError
      | Some r \<Rightarrow>
          (case bdim (ncols A) (ncols B) of
             None \<Rightarrow> Inl ValueError
           | Some c \<Rightarrow>
               Inr \<lparr>nrows = r, ncols = c,
                    entry = (\<lambda>i j. f (entry A (bidx (nrows A) i) (bidx (ncols A) j))
                                      (entry B (bidx (nrows B) i) (bidx (ncols B) j)))\<rparr>))"

text \<open>
  \<open>np.dot\<close> of two matrices raises ValueError unless the columns of the first are as
  many as the rows of the second; an entry is the sum of the products along that
  dimension, 0.0 when it is empty.
\<close>

definition np_dot :: "pyfloat ndarray \<Rightarrow> pyfloat ndarray \<Rightarrow> py_error + pyfloat ndarray" where
  "np_dot A B =
     (if ncols A \<noteq> nrows B then Inl ValueError
      else Inr \<lparr>nrows = nrows A, ncols = ncols B,
                entry = (\<lambda>i j. foldl fadd (Fin 0)
                                  (map (\<lambda>k. fmul (entry A i k) (entry B k j)) [0..<ncols A]))\<rparr>)"

text \<open>\<open>np.vstack\<close> of three one-dimensional arrays raises ValueError unless they have one
  length.\<close>

definition vstack3 :: "'a list \<Rightarrow> 'a list \<Rightarrow> 'a list \<Rightarrow> py_error + 'a ndarray" where
  "vstack3 a b c =
     (if length b = length a \<and> length c = length a
      then Inr \<lparr>nrows = 3, ncols = length a, entry = (\<lambda>i j. [a, b, c] ! i ! j)\<rparr>
      else Inl ValueError)"

text \<open>An exception ends the computation: the next statement runs on a returned value only.\<close>

definition bind_err :: "py_error + 'a \<Rightarrow> ('a \<Rightarrow> py_error + 'b) \<Rightarrow> py_error + 'b" where
  "bind_err m f = (case m of Inl e \<Rightarrow> Inl e | Inr x \<Rightarrow> f x)"

text \<open>
  The element type of an array made of JSON numbers: \<open>int64\<close> when every number is
  written as an integer, \<open>float64\<close> otherwise. An \<open>int64\<close> entry enters an operation
  with a float as the float of the same value. Storing the float \<open>EPS\<close> into an
  \<open>int64\<close> array truncates it.
\<close>

datatype np_vec = IntVec "64 word list" | FloatVec "pyfloat list"

definition float_of_int64 :: "64 word \<Rightarrow> pyfloat" where
  "float_of_int64 w = Fin (real_of_int (sint w))"

definition floats :: "np_vec \<Rightarrow> pyfloat list" where
  "floats v = (case v of IntVec ws \<Rightarrow> map float_of_int64 ws | FloatVec xs \<Rightarrow> xs)"

definition EPS_int64 :: "64 word" where
  "EPS_int64 = word_of_int \<lfloor>1 / 10 ^ 9 :: real\<rfloor>"

section \<open>The neural network: \<open>run_neural_net_batch\<close>\<close>

text \<open>
  The arrays made at start-up of \<open>model_params.json\<close>. The file is not part of the
  sources, so they are a parameter of the model. \<open>IW\<close> and \<open>LW\<close> are two-dimensional
  arrays of any shape; \<open>b1\<close>, \<open>b2\<close>, \<open>x_min\<close> and \<open>x_max\<close> are the entries of the
  columns that \<open>reshape(-1, 1)\<close> makes, of any length. The element type matters for
  \<open>x_min\<close> and \<open>x_max\<close> only, whose difference is taken before any float is involved;
  the other numbers meet floats first and are carried as floats.
\<close>

record params =
  IW :: "pyfloat ndarray"
  LW :: "pyfloat ndarray"
  b1 :: "pyfloat list"
  b2 :: "pyfloat list"
  x_min :: np_vec
  x_max :: np_vec
  y_min :: pyfloat
  y_max :: pyfloat

text \<open>
  The shapes of the data model: \<open>IW\<close> is \<open>H \<times> 3\<close>, \<open>LW\<close> is \<open>1 \<times> H\<close>, \<open>b1\<close> has \<open>H\<close>
  entries, \<open>b2\<close> one, \<open>x_min\<close> and \<open>x_max\<close> three. The code does not check them.
\<close>

definition shapes_ok :: "params \<Rightarrow> bool" where
  "shapes_ok p \<longleftrightarrow>
     ncols (IW p) = 3 \<and> nrows (LW p) = 1 \<and> ncols (LW p) = nrows (IW p) \<and>
     length (b1 p) = nrows (IW p) \<and> length (b2 p) = 1 \<and>
     length (floats (x_min p)) = 3 \<and> length (floats (x_max p)) = 3"

text \<open>\<open>cell_voltages = voltages / SERIES_CELLS\<close> and \<open>X = np.vstack([...])\<close>\<close>

definition cell_voltages :: "pyfloat list \<Rightarrow> pyfloat list" where
  "cell_voltages voltages = map (\<lambda>v. fdiv v SERIES_CELLS) voltages"

definition X_of ::
  "pyfloat list \<Rightarrow> pyfloat list \<Rightarrow> pyfloat list \<Rightarrow> py_error + pyfloat ndarray"
where
  "X_of currents temps voltages = vstack3 currents temps (cell_voltages voltages)"

text \<open>\<open>X_clamped = np.maximum(x_min, np.minimum(x_max, X))\<close>\<close>

definition X_clamped :: "params \<Rightarrow> pyfloat ndarray \<Rightarrow> py_error + pyfloat ndarray" where
  "X_clamped p X =
     bind_err (np_broadcast np_minimum (column (floats (x_max p))) X)
       (\<lambda>m. np_broadcast np_maximum (column (floats (x_min p))) m)"

text \<open>
  \<open>denom = (x_max - x_min)\<close>; \<open>denom[denom == 0] = EPS\<close>. When both columns are
  \<open>int64\<close> so is \<open>denom\<close>: the difference wraps around at 64 bits and the assignment
  stores the truncated \<open>EPS\<close>. The result is given as it enters the division, as floats.
\<close>

definition denom :: "params \<Rightarrow> py_error + pyfloat ndarray" where
  "denom p =
     (case (x_max p, x_min p) of
        (IntVec hs, IntVec ls) \<Rightarrow>
          bind_err (np_broadcast (\<lambda>h l. h - l) (column hs) (column ls))
            (\<lambda>d. Inr (map_arr float_of_int64
                        (map_arr (\<lambda>w. if w = 0 then EPS_int64 else w) d)))
      | _ \<Rightarrow>
          bind_err (np_broadcast fsub (column (floats (x_max p))) (column (floats (x_min p))))
            (\<lambda>d. Inr (map_arr (\<lambda>x. if feq x (Fin 0) then EPS else x) d)))"

text \<open>\<open>X_norm = 2.0 * (X_clamped - x_min) / denom - 1.0\<close>\<close>

definition X_norm :: "params \<Rightarrow> pyfloat ndarray \<Rightarrow> py_error + pyfloat ndarray" where
  "X_norm p Xc =
     bind_err (denom p)
       (\<lambda>d. bind_err (np_broadcast fsub Xc (column (floats (x_min p))))
         (\<lambda>a. bind_err (np_broadcast fdiv (map_arr (fmul (Fin 2)) a) d)
           (\<lambda>q. Inr (map_arr (\<lambda>x. fsub x (Fin 1)) q))))"

text \<open>\<open>Z = np.tanh(np.dot(IW, X_norm) + b1)\<close> and \<open>Y_norm = np.dot(LW, Z) + b2\<close>\<close>

definition Z_of :: "params \<Rightarrow> pyfloat ndarray \<Rightarrow> py_error + pyfloat ndarray" where
  "Z_of p Xn =
     bind_err (np_dot (IW p) Xn)
       (\<lambda>d. bind_err (np_broadcast fadd d (column (b1 p)))
         (\<lambda>s. Inr (map_arr ftanh s)))"

definition Y_norm :: "params \<Rightarrow> pyfloat ndarray \<Rightarrow> py_error + pyfloat ndarray" where
  "Y_norm p Z =
     bind_err (np_dot (LW p) Z) (\<lambda>d. np_broadcast fadd d (column (b2 p)))"

text \<open>The statements of the function up to \<open>Y_norm\<close>, in their order.\<close>

definition Y_norm_of ::
  "params \<Rightarrow> pyfloat list \<Rightarrow> pyfloat list \<Rightarrow> pyfloat list \<Rightarrow> py_error + pyfloat ndarray"
where
  "Y_norm_of p currents temps voltages =
     bind_err (X_of currents temps voltages)
       (\<lambda>X. bind_err (X_clamped p X)
         (\<lambda>Xc. bind_err (X_norm p Xc)
           (\<lambda>Xn. bind_err (Z_of p Xn) (Y_norm p))))"

text \<open>\<open>soc_fraction = (Y_norm - (-1.0)) * (y_max - y_min) / (1.0 - (-1.0)) + y_min\<close>,
  entry by entry.\<close>

definition soc_fraction :: "params \<Rightarrow> pyfloat \<Rightarrow> pyfloat" where
  "soc_fraction p y =
     fadd (fdiv (fmul (fsub y (Fin (- 1))) (fsub (y_max p) (y_min p)))
                (fsub (Fin 1) (Fin (- 1))))
          (y_min p)"

text \<open>\<open>if y_max < 2.0: soc_percent = soc_fraction * 100.0 else: soc_percent = soc_fraction\<close>\<close>

definition soc_percent :: "params \<Rightarrow> pyfloat \<Rightarrow> pyfloat" where
  "soc_percent p y =
     (if flt (y_max p) (Fin 2) then fmul (soc_fraction p y) (Fin 100) else soc_fraction p y)"

text \<open>The network output of every sample before the last clamp:
  \<open>soc_percent.flatten().tolist()\<close>.\<close>

definition raw_result ::
  "params \<Rightarrow> pyfloat list \<Rightarrow> pyfloat list \<Rightarrow> pyfloat list \<Rightarrow> py_error + pyfloat list"
where
  "raw_result p currents temps voltages =
     bind_err (Y_norm_of p currents temps voltages)
       (\<lambda>Y. Inr (flatten (map_arr (soc_percent p) Y)))"

text \<open>The last statement is \<open>[max(0.0, min(100.0, float(r))) for r in result]\<close>.\<close>

definition run_neural_net_batch ::
  "params \<Rightarrow> pyfloat list \<Rightarrow> pyfloat list \<Rightarrow> pyfloat list \<Rightarrow> py_error + pyfloat list"
where
  "run_neural_net_batch p currents temps voltages =
     bind_err (raw_result p currents temps voltages)
       (\<lambda>result. Inr (map clamp_0_100 result))"

section \<open>The endpoints\<close>

record InputData =
  current :: pyfloat
  voltage :: pyfloat
  temperature :: pyfloat
  time :: "pyfloat option"

record DriveCycleData =
  currents :: "pyfloat list"
  voltages :: "pyfloat list"
  temperatures :: "pyfloat list"
  times :: "pyfloat list option"

text \<open>
  \<open>predict_single\<close> answers \<open>{"soc": soc}\<close>, or \<open>{"soc": None}\<close> when anything in
  the \<open>try\<close> block raises; the value of the field is the result of the model.
\<close>

definition predict_single :: "params \<Rightarrow> InputData \<Rightarrow> pyfloat option" where
  "predict_single p data =
     (case run_neural_net_batch p [current data] [temperature data] [voltage data] of
        Inl e \<Rightarrow> None
      | Inr nn_result \<Rightarrow>
          (case nn_result of
             [] \<Rightarrow> None
           | r # _ \<Rightarrow> Some (clamp_0_100 r)))"

text \<open>The answer of \<open>predict_cycle\<close>; the fields of the request are \<open>current\<close>,
  \<open>voltage\<close>, \<open>temperature\<close> and \<open>time\<close> in the source, written here in the plural
  to keep them apart from those of \<open>InputData\<close>.\<close>

record SimResponse =
  soc :: "pyfloat list"
  discharge_time :: "pyfloat option"
  total_points :: nat

definition empty_response :: SimResponse where
  "empty_response = \<lparr>soc = [], discharge_time = None, total_points = 0\<rparr>"

text \<open>The calls an endpoint makes, in order, with their arguments.\<close>

datatype call =
  NN_call "pyfloat list" "pyfloat list" "pyfloat list"
| Physics_call "pyfloat list" "pyfloat list option" pyfloat

text \<open>\<open>START_SOC = nn_socs[0] if (nn_socs and 0 <= nn_socs[0] <= 100) else 100.0\<close>\<close>

definition START_SOC :: "pyfloat list \<Rightarrow> pyfloat" where
  "START_SOC nn_socs =
     (case nn_socs of
        [] \<Rightarrow> Fin 100
      | x # _ \<Rightarrow> if fle (Fin 0) x \<and> fle x (Fin 100) then x else Fin 100)"

text \<open>The fusion loop of \<open>predict_cycle\<close>, one index at a time.\<close>

definition fused_at :: "pyfloat list \<Rightarrow> pyfloat list \<Rightarrow> nat \<Rightarrow> pyfloat" where
  "fused_at phys_socs nn_socs idx =
     (let ph = phys_socs ! idx;
          ml = (if idx < length nn_socs then nn_socs ! idx else ph)
      in if fle ph (Fin 0) then Fin 0
         else clamp_0_100 (fadd (fmul ML_WEIGHT ml) (fmul (fsub (Fin 1) ML_WEIGHT) ph)))"

definition fuse :: "pyfloat list \<Rightarrow> pyfloat list \<Rightarrow> pyfloat list" where
  "fuse phys_socs nn_socs = map (fused_at phys_socs nn_socs) [0..<length phys_socs]"

text \<open>\<open>times = data.time if (data.time and len(data.time) == n) else None\<close>\<close>

definition request_times :: "DriveCycleData \<Rightarrow> pyfloat list option" where
  "request_times data =
     (case times data of
        None \<Rightarrow> None
      | Some ts \<Rightarrow> if ts \<noteq> [] \<and> length ts = length (currents data) then Some ts else None)"

text \<open>\<open>predict_cycle\<close>: the answer and the calls made on the way. An exception of a
  callee is caught by the \<open>except\<close> clause, which answers the empty result.\<close>

definition predict_cycle :: "params \<Rightarrow> DriveCycleData \<Rightarrow> SimResponse \<times> call list" where
  "predict_cycle p data =
     (if \<not> (length (temperatures data) = length (currents data) \<and>
             length (voltages data) = length (currents data))
      then (empty_response, [])
      else
        let nn = NN_call (currents data) (temperatures data) (voltages data) in
        case run_neural_net_batch p (currents data) (temperatures data) (voltages data) of
          Inl e \<Rightarrow> (empty_response, [nn])
        | Inr nn_socs \<Rightarrow>
            let ph = Physics_call (currents data) (request_times data) (START_SOC nn_socs) in
            (case physics_integrate_soc (currents data) (request_times data) (START_SOC nn_socs) of
               Inl e \<Rightarrow> (empty_response, [nn, ph])
             | Inr (phys_socs, t) \<Rightarrow>
                 (\<lparr>soc = fuse phys_socs nn_socs, discharge_time = Some t,
                   total_points = length (fuse phys_socs nn_socs)\<rparr>, [nn, ph])))"

section \<open>Reference formula and sample bundles\<close>

text \<open>
  The denormalisation as the specification writes it:
  \<open>frac = (yNorm + 1) * (outputMax - outputMin) / 2 + outputMin\<close>.
\<close>

definition denormalize_spec :: "params \<Rightarrow> pyfloat \<Rightarrow> pyfloat" where
  "denormalize_spec p yNorm =
     fadd (fdiv (fmul (fadd yNorm (Fin 1)) (fsub (y_max p) (y_min p))) (Fin 2)) (y_min p)"

text \<open>
  A small bundle to run the model on: one hidden unit with zero input weights, so the
  network output is 0 and the prediction 50 percent for every sample it can normalise.
  Its third channel has \<open>x_min = x_max\<close>. In \<open>example_params\<close> the bounds are written
  as floats (\<open>3.0\<close>), in \<open>example_params_int\<close> as integers (\<open>3\<close>).
\<close>

definition example_params :: params where
  "example_params =
     \<lparr>IW = of_rows [[Fin 0, Fin 0, Fin 0]], LW = of_rows [[Fin 1]],
      b1 = [Fin 0], b2 = [Fin 0],
      x_min = FloatVec [Fin (- 100), Fin 0, Fin 3], x_max = FloatVec [Fin 100, Fin 50, Fin 3],
      y_min = Fin 0, y_max = Fin 1\<rparr>"

definition example_params_int :: params where
  "example_params_int =
     example_params\<lparr>x_min := IntVec [0, 0, 3], x_max := IntVec [100, 50, 3]\<rparr>"

section \<open>Properties of the clamp and of the integration loop\<close>

declare integrate_loop.simps [simp del]

lemma clamp_0_100_range: "\<exists>r. clamp_0_100 x = Fin r \<and> 0 \<le> r \<and> r \<le> 100"
  by (cases x) (auto simp: clamp_0_100_def py_min_def py_max_def)

lemma clamp_0_100_Fin: "clamp_0_100 (Fin v) = Fin (max 0 (min 100 v))"
  by (simp add: clamp_0_100_def py_min_def py_max_def max_def min_def)

lemma clamp_cap_positive:
  "\<not> fle x (Fin 0) \<Longrightarrow> \<exists>r. clamp_0_100 (cap_100 x) = Fin r \<and> 0 < r \<and> r \<le> 100"
  by (cases x) (auto simp: clamp_0_100_def cap_100_def py_min_def py_max_def)

lemma integrate_loop_prefix:
  "integrate_loop cs ts n i phys = (traj, d) \<Longrightarrow>
     length phys \<le> length traj \<and> take (length phys) traj = phys"
proof (induction cs ts n i phys arbitrary: traj d rule: integrate_loop.induct)
  case (1 cs ts n i phys)
  show ?case
  proof (cases "i < n \<and> \<not> fle (next_soc cs ts i (last phys)) (Fin 0)")
    case True
    let ?p = "phys @ [clamp_0_100 (cap_100 (next_soc cs ts i (last phys)))]"
    from True "1.prems" have "integrate_loop cs ts n (Suc i) ?p = (traj, d)"
      by (simp add: integrate_loop.simps [of cs ts n i phys])
    with True "1.IH" have "length ?p \<le> length traj \<and> take (length ?p) traj = ?p"
      by blast
    then have le: "length ?p \<le> length traj" and tk: "take (length ?p) traj = ?p"
      by blast+
    have "take (length phys) (take (length ?p) traj) = take (length phys) traj"
      by (simp add: min_def)
    with tk have "take (length phys) traj = phys" by simp
    with le show ?thesis by simp
  next
    case False
    with "1.prems" show ?thesis
      by (auto simp: integrate_loop.simps [of cs ts n i phys] split: if_splits)
  qed
qed

text \<open>Every element the loop appends is finite and in range, and none of them but the
  last is zero.\<close>

lemma integrate_loop_appended:
  "integrate_loop cs ts n i phys = (traj, d) \<Longrightarrow>
     (\<forall>k. length phys \<le> k \<and> k < length traj \<longrightarrow> (\<exists>r. traj ! k = Fin r \<and> 0 \<le> r \<and> r \<le> 100)) \<and>
     (\<forall>k. length phys \<le> k \<and> Suc k < length traj \<longrightarrow> traj ! k \<noteq> Fin 0)"
proof (induction cs ts n i phys arbitrary: traj d rule: integrate_loop.induct)
  case (1 cs ts n i phys)
  show ?case
  proof (cases "i < n \<and> \<not> fle (next_soc cs ts i (last phys)) (Fin 0)")
    case True
    let ?x = "clamp_0_100 (cap_100 (next_soc cs ts i (last phys)))"
    let ?p = "phys @ [?x]"
    from True "1.prems" have run: "integrate_loop cs ts n (Suc i) ?p = (traj, d)"
      by (simp add: integrate_loop.simps [of cs ts n i phys])
    with True "1.IH" have
      ih1: "\<forall>k. length ?p \<le> k \<and> k < length traj \<longrightarrow> (\<exists>r. traj ! k = Fin r \<and> 0 \<le> r \<and> r \<le> 100)" and
      ih2: "\<forall>k. length ?p \<le> k \<and> Suc k < length traj \<longrightarrow> traj ! k \<noteq> Fin 0"
      by blast+
    from integrate_loop_prefix [OF run] have le: "length ?p \<le> length traj"
      and tk: "take (length ?p) traj = ?p" by blast+
    have "traj ! length phys = take (length ?p) traj ! length phys"
      by simp
    with tk have at: "traj ! length phys = ?x" by simp
    from True obtain r where r: "?x = Fin r" "0 < r" "r \<le> 100"
      using clamp_cap_positive by blast
    have a: "\<exists>r. traj ! k = Fin r \<and> 0 \<le> r \<and> r \<le> 100"
      if "length phys \<le> k \<and> k < length traj" for k
    proof (cases "k = length phys")
      case True
      with at r show ?thesis by auto
    next
      case False
      with that ih1 show ?thesis by simp
    qed
    have b: "traj ! k \<noteq> Fin 0" if "length phys \<le> k \<and> Suc k < length traj" for k
    proof (cases "k = length phys")
      case True
      with at r show ?thesis by auto
    next
      case False
      with that ih2 show ?thesis by simp
    qed
    from a b show ?thesis by blast
  next
    case False
    with "1.prems" show ?thesis
      by (auto simp: integrate_loop.simps [of cs ts n i phys] nth_append split: if_splits)
  qed
qed

lemma integrate_loop_steps:
  "integrate_loop cs ts n i phys = (traj, d) \<Longrightarrow> length phys = i \<Longrightarrow> 1 \<le> i \<Longrightarrow>
     (case d of
        None \<Rightarrow> length traj = max i n \<and>
                (\<forall>j. i \<le> j \<and> j < n \<longrightarrow> \<not> fle (next_soc cs ts j (traj ! (j - 1))) (Fin 0))
      | Some x \<Rightarrow> (\<exists>k. i \<le> k \<and> k < n \<and> length traj = Suc k \<and> x = ts ! k \<and> traj ! k = Fin 0 \<and>
                 fle (next_soc cs ts k (traj ! (k - 1))) (Fin 0) \<and>
                 (\<forall>j. i \<le> j \<and> j < k \<longrightarrow> \<not> fle (next_soc cs ts j (traj ! (j - 1))) (Fin 0))))"
proof (induction cs ts n i phys arbitrary: traj d rule: integrate_loop.induct)
  case (1 cs ts n i phys)
  from "1.prems" have ne: "phys \<noteq> []" by auto
  show ?case
  proof (cases "i < n")
    case False
    with "1.prems" show ?thesis
      by (auto simp: integrate_loop.simps [of cs ts n i phys])
  next
    case lt: True
    show ?thesis
    proof (cases "fle (next_soc cs ts i (last phys)) (Fin 0)")
      case True
      with lt "1.prems" have res: "traj = phys @ [Fin 0]" "d = Some (ts ! i)"
        by (auto simp: integrate_loop.simps [of cs ts n i phys])
      from res "1.prems" ne have "traj ! (i - 1) = last phys"
        by (simp add: nth_append last_conv_nth)
      with True res lt "1.prems" show ?thesis
        by (auto simp: nth_append)
    next
      case False
      let ?x = "clamp_0_100 (cap_100 (next_soc cs ts i (last phys)))"
      let ?p = "phys @ [?x]"
      from False lt "1.prems" have run: "integrate_loop cs ts n (Suc i) ?p = (traj, d)"
        by (simp add: integrate_loop.simps [of cs ts n i phys])
      from "1.prems" have len: "length ?p = Suc i" by simp
      note ih = "1.IH" [OF lt False run len]
      from integrate_loop_prefix [OF run] have tk: "take (length ?p) traj = ?p" by blast
      have "traj ! (i - 1) = take (length ?p) traj ! (i - 1)"
        using "1.prems" by simp
      with tk "1.prems" ne have prev: "traj ! (i - 1) = last phys"
        by (simp add: nth_append last_conv_nth)
      with False have here: "\<not> fle (next_soc cs ts i (traj ! (i - 1))) (Fin 0)" by simp
      show ?thesis
      proof (cases d)
        case None
        with ih have l: "length traj = max (Suc i) n"
          and q: "\<forall>j. Suc i \<le> j \<and> j < n \<longrightarrow> \<not> fle (next_soc cs ts j (traj ! (j - 1))) (Fin 0)"
          by auto
        have "\<not> fle (next_soc cs ts j (traj ! (j - 1))) (Fin 0)" if "i \<le> j \<and> j < n" for j
          using that q here by (cases "j = i") auto
        with l lt None show ?thesis by auto
      next
        case (Some x)
        with ih obtain k where k: "Suc i \<le> k" "k < n" "length traj = Suc k" "x = ts ! k"
          "traj ! k = Fin 0" "fle (next_soc cs ts k (traj ! (k - 1))) (Fin 0)"
          "\<forall>j. Suc i \<le> j \<and> j < k \<longrightarrow> \<not> fle (next_soc cs ts j (traj ! (j - 1))) (Fin 0)"
          by auto
        have "\<not> fle (next_soc cs ts j (traj ! (j - 1))) (Fin 0)" if "i \<le> j \<and> j < k" for j
          using that k(7) here by (cases "j = i") auto
        with k Some show ?thesis by auto
      qed
    qed
  qed
qed

text \<open>Unfolding everything, to run the integrator on a concrete series.\<close>

lemmas phys_eval = physics_integrate_soc_def effective_times_def range_times_def next_soc_def
  delta_percent_def step_dt_def BATTERY_CAPACITY_AH_def fsub_def cap_100_def clamp_0_100_def
  py_min_def py_max_def integrate_loop.simps upt_rec

section \<open>The physics trajectory\<close>

text \<open>
  C1 (as amended). The start value is stored as element 0 without any check, so the
  bounds hold for a start value in \<open>[0, 100]\<close>, as the docstring asks. Then every element
  of the trajectory is finite and lies in \<open>[0, 100]\<close>; an element equal to 0 at an index
  \<open>k \<ge> 1\<close> is the last element; and a step \<open>k\<close> whose \<open>next_soc\<close> is \<open><= 0\<close> produces
  the last element: no step after it is evaluated.
\<close>

theorem physics_trajectory_bounded:
  assumes run: "physics_integrate_soc cs tms (Fin a) = Inr (traj, d)"
    and lo: "0 \<le> a" and hi: "a \<le> 100"
  shows "(\<forall>k<length traj. \<exists>r. traj ! k = Fin r \<and> 0 \<le> r \<and> r \<le> 100) \<and>
         (\<forall>k. 1 \<le> k \<and> k < length traj \<and> traj ! k = Fin 0 \<longrightarrow> Suc k = length traj) \<and>
         (\<forall>k. 1 \<le> k \<and> k < length traj \<and>
              fle (next_soc cs (effective_times (length cs) tms) k (traj ! (k - 1))) (Fin 0)
              \<longrightarrow> Suc k = length traj)"
proof -
  let ?ts = "effective_times (length cs) tms"
  obtain d' where loop: "integrate_loop cs ?ts (length cs) 1 [Fin a] = (traj, d')"
    using run by (auto simp: physics_integrate_soc_def Let_def split: prod.splits option.splits if_splits)
  from integrate_loop_prefix [OF loop] have pre: "1 \<le> length traj" "take 1 traj = [Fin a]"
    by simp_all
  then have first: "traj ! 0 = Fin a"
    by (metis One_nat_def nth_Cons_0 nth_take zero_less_one)
  from integrate_loop_appended [OF loop] have
    app1: "\<forall>k. 1 \<le> k \<and> k < length traj \<longrightarrow> (\<exists>r. traj ! k = Fin r \<and> 0 \<le> r \<and> r \<le> 100)" and
    app2: "\<forall>k. 1 \<le> k \<and> Suc k < length traj \<longrightarrow> traj ! k \<noteq> Fin 0"
    by simp_all
  have range: "\<exists>r. traj ! k = Fin r \<and> 0 \<le> r \<and> r \<le> 100" if "k < length traj" for k
  proof (cases k)
    case 0
    with first lo hi show ?thesis by simp
  next
    case (Suc m)
    with that app1 show ?thesis by simp
  qed
  have zero: "Suc k = length traj" if "1 \<le> k \<and> k < length traj \<and> traj ! k = Fin 0" for k
  proof (rule ccontr)
    assume "Suc k \<noteq> length traj"
    with that have "Suc k < length traj" by simp
    with that app2 show False by blast
  qed
  have stop: "Suc k = length traj"
    if k: "1 \<le> k \<and> k < length traj \<and> fle (next_soc cs ?ts k (traj ! (k - 1))) (Fin 0)" for k
  proof (cases d')
    case None
    with integrate_loop_steps [OF loop] have
      "length traj = max 1 (length cs)"
      "\<forall>j. 1 \<le> j \<and> j < length cs \<longrightarrow> \<not> fle (next_soc cs ?ts j (traj ! (j - 1))) (Fin 0)"
      by simp_all
    with k show ?thesis by (auto simp: max_def split: if_splits)
  next
    case (Some x)
    with integrate_loop_steps [OF loop] obtain m where m: "1 \<le> m" "length traj = Suc m"
      "\<forall>j. 1 \<le> j \<and> j < m \<longrightarrow> \<not> fle (next_soc cs ?ts j (traj ! (j - 1))) (Fin 0)"
      by auto
    with k have "\<not> k < m" by blast
    with k m show ?thesis by simp
  qed
  from range zero stop show ?thesis by blast
qed

theorem physics_trajectory_bounded_witness:
  "physics_integrate_soc [Fin (- 48600), Fin (- 48600), Fin 7] None (Fin 100)
     = Inr ([Fin 100, Fin 50, Fin 0], Fin 2) \<and>
   (\<exists>r. [Fin 100, Fin 50, Fin 0] ! 1 = Fin r \<and> 0 \<le> r \<and> r \<le> 100) \<and>
   Suc 2 = length [Fin 100, Fin 50, Fin 0]"
proof -
  have run: "physics_integrate_soc [Fin (- 48600), Fin (- 48600), Fin 7] None (Fin 100)
     = Inr ([Fin 100, Fin 50, Fin 0], Fin 2)"
    by (simp add: phys_eval)
  from physics_trajectory_bounded [OF run] run show ?thesis by simp
qed

text \<open>
  C1 as stated fails for a start value outside \<open>[0, 100]\<close>, which is returned as it
  is, and for the start value 0, which is followed by further elements.
\<close>

theorem physics_trajectory_range_counterexample:
  "physics_integrate_soc [Fin 0] None (Fin 150) = Inr ([Fin 150], Fin 0) \<and>
   physics_integrate_soc [Fin 972, Fin 0] None (Fin 0) = Inr ([Fin 0, Fin 1], Fin 1)"
  by (simp add: phys_eval)




text \<open>
  C8. Without a timestamp array, or with one whose length is not that of the currents,
  the integrator returns what it returns for the explicit array \<open>[0, 1, ..., N-1]\<close>,
  and every step has \<open>dt = 1\<close>.
\<close>

theorem physics_unit_step_fallback:
  "physics_integrate_soc cs None s =
     physics_integrate_soc cs (Some (map (\<lambda>i. Fin (real i)) [0..<length cs])) s \<and>
   (length ts \<noteq> length cs \<longrightarrow>
      physics_integrate_soc cs (Some ts) s =
        physics_integrate_soc cs (Some (map (\<lambda>i. Fin (real i)) [0..<length cs])) s) \<and>
   (\<forall>i. 1 \<le> i \<and> i < length cs \<longrightarrow>
      step_dt (effective_times (length cs) None) i = Fin 1)"
proof -
  have "step_dt (effective_times (length cs) None) i = Fin 1" if "1 \<le> i \<and> i < length cs" for i
  proof -
    from that have "real i - real (i - 1) = 1" by (simp add: of_nat_diff)
    with that show ?thesis
      by (simp add: step_dt_def effective_times_def range_times_def fsub_def)
  qed
  then show ?thesis
    by (simp add: physics_integrate_soc_def effective_times_def range_times_def)
qed

theorem physics_unit_step_fallback_witness:
  "length [Fin 5] \<noteq> length [Fin (- 48600), Fin (- 48600), Fin 7] \<and>
   physics_integrate_soc [Fin (- 48600), Fin (- 48600), Fin 7] (Some [Fin 5]) (Fin 100)
     = physics_integrate_soc [Fin (- 48600), Fin (- 48600), Fin 7]
         (Some [Fin 0, Fin 1, Fin 2]) (Fin 100) \<and>
   physics_integrate_soc [Fin (- 48600), Fin (- 48600), Fin 7] (Some [Fin 5]) (Fin 100)
     = Inr ([Fin 100, Fin 50, Fin 0], Fin 2)"
proof -
  have "physics_integrate_soc [Fin (- 48600), Fin (- 48600), Fin 7] (Some [Fin 5]) (Fin 100)
     = Inr ([Fin 100, Fin 50, Fin 0], Fin 2)"
    by (simp add: phys_eval)
  with physics_unit_step_fallback
    [of "[Fin (- 48600), Fin (- 48600), Fin 7]" "Fin 100" "[Fin 5]"]
  show ?thesis by (simp add: upt_rec)
qed

section \<open>Shapes of the arrays of the network\<close>

lemma bidx_inside: "i < n \<Longrightarrow> bidx n i = i"
  by (simp add: bidx_def)

lemma bind_err_Inr: "bind_err (Inr x) f = f x"
  by (simp add: bind_err_def)

lemma bind_err_eq_Inr:
  "bind_err m f = Inr y \<longleftrightarrow> (\<exists>x. m = Inr x \<and> f x = Inr y)"
  by (cases m) (simp_all add: bind_err_def)

lemma length_flatten: "length (flatten A) = nrows A * ncols A"
  by (simp add: flatten_def length_concat comp_def sum_list_triv)

lemma flatten_map_arr: "flatten (map_arr f A) = map f (flatten A)"
  by (simp add: flatten_def map_arr_def map_concat comp_def)

lemma X_of_Inr:
  assumes "length temps = length cs" "length vs = length cs"
  shows "X_of cs temps vs =
     Inr \<lparr>nrows = 3, ncols = length cs, entry = (\<lambda>i j. [cs, temps, cell_voltages vs] ! i ! j)\<rparr>"
  using assms by (simp add: X_of_def vstack3_def cell_voltages_def)

lemma X_of_lengths:
  "X_of cs temps vs = Inr X \<Longrightarrow> length temps = length cs \<and> length vs = length cs"
  by (simp add: X_of_def vstack3_def cell_voltages_def split: if_splits)

lemma X_clamped_Inr:
  assumes "length (floats (x_min p)) = 3" "length (floats (x_max p)) = 3" "nrows X = 3"
  shows "\<exists>Xc. X_clamped p X = Inr Xc \<and> nrows Xc = 3 \<and> ncols Xc = ncols X \<and>
     (\<forall>i<3. \<forall>j<ncols X. entry Xc i j =
        np_maximum (floats (x_min p) ! i) (np_minimum (floats (x_max p) ! i) (entry X i j)))"
  using assms
  by (simp add: X_clamped_def bind_err_def np_broadcast_def column_def bdim_def bidx_inside)

lemma denom_Inr:
  assumes "length (floats (x_min p)) = 3" "length (floats (x_max p)) = 3"
  shows "\<exists>d. denom p = Inr d \<and> nrows d = 3 \<and> ncols d = 1"
proof (cases "x_max p")
  case (IntVec hs)
  note h = this
  show ?thesis
  proof (cases "x_min p")
    case (IntVec ls)
    with h assms show ?thesis
      by (simp add: denom_def floats_def bind_err_def np_broadcast_def column_def bdim_def
          map_arr_def)
  next
    case (FloatVec ls)
    with h assms show ?thesis
      by (simp add: denom_def floats_def bind_err_def np_broadcast_def column_def bdim_def
          map_arr_def)
  qed
next
  case (FloatVec hs)
  with assms show ?thesis
    by (simp add: denom_def floats_def bind_err_def np_broadcast_def column_def bdim_def
        map_arr_def split: np_vec.splits)
qed

lemma X_norm_Inr:
  assumes "length (floats (x_min p)) = 3" "length (floats (x_max p)) = 3" "nrows Xc = 3"
  shows "\<exists>Xn. X_norm p Xc = Inr Xn \<and> nrows Xn = 3 \<and> ncols Xn = ncols Xc"
proof -
  from denom_Inr [OF assms(1,2)] obtain d where
    d: "denom p = Inr d" "nrows d = 3" "ncols d = 1" by blast
  with assms show ?thesis
    by (simp add: X_norm_def bind_err_def np_broadcast_def column_def bdim_def map_arr_def)
qed

lemma Z_of_Inr:
  assumes "ncols (IW p) = 3" "length (b1 p) = nrows (IW p)" "nrows Xn = 3"
  shows "\<exists>Z. Z_of p Xn = Inr Z \<and> nrows Z = nrows (IW p) \<and> ncols Z = ncols Xn"
  using assms
  by (simp add: Z_of_def bind_err_def np_dot_def np_broadcast_def column_def bdim_def map_arr_def)

lemma Y_norm_Inr:
  assumes "nrows (LW p) = 1" "ncols (LW p) = nrows Z" "length (b2 p) = 1"
  shows "\<exists>Y. Y_norm p Z = Inr Y \<and> nrows Y = 1 \<and> ncols Y = ncols Z"
  using assms
  by (simp add: Y_norm_def bind_err_def np_dot_def np_broadcast_def column_def bdim_def)

lemma Y_norm_of_Inr:
  assumes sh: "shapes_ok p" and len: "length temps = length cs" "length vs = length cs"
  shows "\<exists>Y. Y_norm_of p cs temps vs = Inr Y \<and> nrows Y = 1 \<and> ncols Y = length cs"
proof -
  from sh have s: "ncols (IW p) = 3" "nrows (LW p) = 1" "ncols (LW p) = nrows (IW p)"
    "length (b1 p) = nrows (IW p)" "length (b2 p) = 1"
    "length (floats (x_min p)) = 3" "length (floats (x_max p)) = 3"
    by (simp_all add: shapes_ok_def)
  let ?X = "\<lparr>nrows = 3, ncols = length cs, entry = (\<lambda>i j. [cs, temps, cell_voltages vs] ! i ! j)\<rparr>"
  have X: "X_of cs temps vs = Inr ?X" using len by (rule X_of_Inr)
  from X_clamped_Inr [OF s(6,7), of ?X] obtain Xc where
    Xc: "X_clamped p ?X = Inr Xc" "nrows Xc = 3" "ncols Xc = length cs" by auto
  from X_norm_Inr [OF s(6,7) Xc(2)] Xc(3) obtain Xn where
    Xn: "X_norm p Xc = Inr Xn" "nrows Xn = 3" "ncols Xn = length cs" by auto
  from Z_of_Inr [OF s(1,4) Xn(2)] Xn(3) obtain Z where
    Z: "Z_of p Xn = Inr Z" "nrows Z = nrows (IW p)" "ncols Z = length cs" by auto
  from s(3) Z(2) have "ncols (LW p) = nrows Z" by simp
  from Y_norm_Inr [OF s(2) this s(5)] Z(3) obtain Y where
    Y: "Y_norm p Z = Inr Y" "nrows Y = 1" "ncols Y = length cs" by auto
  from X Xc(1) Xn(1) Z(1) Y(1) have "Y_norm_of p cs temps vs = Inr Y"
    by (simp add: Y_norm_of_def bind_err_Inr)
  with Y show ?thesis by blast
qed

text \<open>Whatever the shapes, a returned prediction is a list of clamped values.\<close>

lemma run_neural_net_batch_Inr:
  "run_neural_net_batch p cs temps vs = Inr ys \<longleftrightarrow>
     (\<exists>Y. Y_norm_of p cs temps vs = Inr Y \<and>
          ys = map (\<lambda>y. clamp_0_100 (soc_percent p y)) (flatten Y))"
  by (auto simp: run_neural_net_batch_def raw_result_def bind_err_eq_Inr flatten_map_arr)

lemma run_neural_net_batch_range:
  assumes "run_neural_net_batch p cs temps vs = Inr ys" "i < length ys"
  shows "\<exists>r. ys ! i = Fin r \<and> 0 \<le> r \<and> r \<le> 100"
proof -
  from assms(1) obtain Y where "ys = map (\<lambda>y. clamp_0_100 (soc_percent p y)) (flatten Y)"
    unfolding run_neural_net_batch_Inr by blast
  with assms(2) show ?thesis using clamp_0_100_range by simp
qed

lemma run_neural_net_batch_lengths:
  assumes "run_neural_net_batch p cs temps vs = Inr ys"
  shows "length temps = length cs \<and> length vs = length cs"
proof -
  from assms obtain X where "X_of cs temps vs = Inr X"
    unfolding run_neural_net_batch_Inr Y_norm_of_def bind_err_eq_Inr by blast
  then show ?thesis by (rule X_of_lengths)
qed

lemma run_neural_net_batch_ok:
  assumes "shapes_ok p" "length temps = length cs" "length vs = length cs"
  shows "\<exists>ys. run_neural_net_batch p cs temps vs = Inr ys \<and> length ys = length cs"
proof -
  from Y_norm_of_Inr [OF assms] obtain Y where
    Y: "Y_norm_of p cs temps vs = Inr Y" "nrows Y = 1" "ncols Y = length cs" by blast
  then have "run_neural_net_batch p cs temps vs =
      Inr (map (\<lambda>y. clamp_0_100 (soc_percent p y)) (flatten Y))"
    unfolding run_neural_net_batch_Inr by blast
  with Y(2,3) show ?thesis by (simp add: length_flatten)
qed

text \<open>Unfolding everything, to run the network on concrete samples.\<close>

lemmas arr_eval = of_rows_def column_def map_arr_def flatten_def bdim_def bidx_def
  np_broadcast_def np_dot_def vstack3_def bind_err_def float_of_int64_def floats_def
  EPS_int64_def

lemmas nn_eval = run_neural_net_batch_def raw_result_def Y_norm_of_def soc_percent_def
  soc_fraction_def Y_norm_def Z_of_def X_norm_def denom_def X_clamped_def X_of_def
  cell_voltages_def example_params_def example_params_int_def SERIES_CELLS_def EPS_def
  np_minimum_def np_maximum_def fsub_def clamp_0_100_def py_min_def py_max_def
  inf_of_sign_def arr_eval upt_rec

section \<open>The neural predictor\<close>




lemma soc_fraction_spec: "soc_fraction p y = denormalize_spec p y"
  by (simp add: soc_fraction_def denormalize_spec_def fsub_def)

text \<open>
  C5. The result of the predictor is, for each network output \<open>yNorm\<close>, the clamp to
  \<open>[0, 100]\<close> of \<open>frac = (yNorm + 1) * (y_max - y_min) / 2 + y_min\<close>, multiplied by 100
  exactly when \<open>y_max < 2.0\<close>. On finite values the formula and the test are those of
  the real numbers.
\<close>

theorem denormalize_then_scale:
  assumes "shapes_ok p" "length temps = length cs" "length vs = length cs"
  shows "(\<exists>Y. Y_norm_of p cs temps vs = Inr Y \<and> nrows Y = 1 \<and> ncols Y = length cs \<and>
            run_neural_net_batch p cs temps vs =
              Inr (map (\<lambda>yNorm. clamp_0_100
                     (if flt (y_max p) (Fin 2) then fmul (denormalize_spec p yNorm) (Fin 100)
                      else denormalize_spec p yNorm))
                   (flatten Y))) \<and>
     (\<forall>y lo hi. y_min p = Fin lo \<and> y_max p = Fin hi \<longrightarrow>
        denormalize_spec p (Fin y) = Fin ((y + 1) * (hi - lo) / 2 + lo) \<and>
        (flt (y_max p) (Fin 2) \<longleftrightarrow> hi < 2))"
proof -
  have sp: "soc_percent p = (\<lambda>yNorm. if flt (y_max p) (Fin 2)
          then fmul (denormalize_spec p yNorm) (Fin 100) else denormalize_spec p yNorm)"
    by (rule ext) (simp add: soc_percent_def soc_fraction_spec)
  from Y_norm_of_Inr [OF assms] obtain Y where
    Y: "Y_norm_of p cs temps vs = Inr Y" "nrows Y = 1" "ncols Y = length cs" by blast
  then have "run_neural_net_batch p cs temps vs =
      Inr (map (\<lambda>y. clamp_0_100 (soc_percent p y)) (flatten Y))"
    unfolding run_neural_net_batch_Inr by blast
  then have "run_neural_net_batch p cs temps vs =
      Inr (map (\<lambda>yNorm. clamp_0_100
                     (if flt (y_max p) (Fin 2) then fmul (denormalize_spec p yNorm) (Fin 100)
                      else denormalize_spec p yNorm))
                   (flatten Y))"
    by (simp add: sp)
  moreover have "denormalize_spec p (Fin y) = Fin ((y + 1) * (hi - lo) / 2 + lo) \<and>
        (flt (y_max p) (Fin 2) \<longleftrightarrow> hi < 2)" if "y_min p = Fin lo \<and> y_max p = Fin hi" for y lo hi
    using that by (simp add: denormalize_spec_def fsub_def)
  ultimately show ?thesis using Y by blast
qed

theorem denormalize_then_scale_witness:
  "shapes_ok example_params \<and>
   (\<exists>Y. Y_norm_of example_params [Fin 0] [Fin 25] [Fin 345.6] = Inr Y \<and> flatten Y = [Fin 0]) \<and>
   denormalize_spec example_params (Fin 0) = Fin 0.5 \<and>
   run_neural_net_batch example_params [Fin 0] [Fin 25] [Fin 345.6] = Inr [Fin 50]"
proof -
  have s: "shapes_ok example_params"
    by (simp add: shapes_ok_def example_params_def of_rows_def floats_def)
  have y: "\<exists>Y. Y_norm_of example_params [Fin 0] [Fin 25] [Fin 345.6] = Inr Y \<and>
      flatten Y = [Fin 0]"
    by (simp add: nn_eval)
  have d: "denormalize_spec example_params (Fin 0) = Fin 0.5"
    by (simp add: denormalize_spec_def example_params_def fsub_def)
  have r: "run_neural_net_batch example_params [Fin 0] [Fin 25] [Fin 345.6] = Inr [Fin 50]"
    by (simp add: nn_eval)
  from denormalize_then_scale [OF s, of "[Fin 25]" "[Fin 0]" "[Fin 345.6]"] s y d r
  show ?thesis by simp
qed

text \<open>
  C9. The claim fails on the code for a bundle whose bounds are written as integers, so
  that \<open>x_min\<close> and \<open>x_max\<close> are \<open>int64\<close> arrays: \<open>denom[denom == 0] = EPS\<close> stores
  the truncated value 0, the denominator of the degenerate channel stays 0, the
  normalisation divides 0 by 0 and the NaN goes through the network; the last clamp turns
  it into 100. With the same bounds written as floats the denominator is \<open>1e-9\<close> and the
  prediction 50.
\<close>

theorem degenerate_range_int64:
  "(\<exists>d. denom example_params_int = Inr d \<and> entry d 2 0 = Fin 0) \<and>
   (\<exists>X Xc Xn. X_of [Fin 0] [Fin 25] [Fin 345.6] = Inr X \<and>
      X_clamped example_params_int X = Inr Xc \<and> entry Xc 2 0 = Fin 3 \<and>
      X_norm example_params_int Xc = Inr Xn \<and> entry Xn 2 0 = NaN) \<and>
   raw_result example_params_int [Fin 0] [Fin 25] [Fin 345.6] = Inr [NaN] \<and>
   run_neural_net_batch example_params_int [Fin 0] [Fin 25] [Fin 345.6] = Inr [Fin 100] \<and>
   (\<exists>d. denom example_params = Inr d \<and> entry d 2 0 = Fin (1 / 10 ^ 9)) \<and>
   run_neural_net_batch example_params [Fin 0] [Fin 25] [Fin 345.6] = Inr [Fin 50]"
  by (simp add: nn_eval)

text \<open>The same for every bundle: with \<open>int64\<close> bounds that agree on a channel the
  denominator is 0 there, with float bounds it is \<open>1e-9\<close>.\<close>

lemma denom_int64_zero:
  assumes "x_max p = IntVec hs" "x_min p = IntVec ls" "length hs = 3" "length ls = 3"
    "j < 3" "hs ! j = ls ! j"
  shows "\<exists>d. denom p = Inr d \<and> entry d j 0 = Fin 0"
  using assms
  by (simp add: denom_def bind_err_def np_broadcast_def column_def bdim_def bidx_inside
      map_arr_def EPS_int64_def float_of_int64_def)

lemma denom_float_eps:
  assumes "x_max p = FloatVec hs" "length hs = 3" "length (floats (x_min p)) = 3"
    "j < 3" "hs ! j = Fin a" "floats (x_min p) ! j = Fin a"
  shows "\<exists>d. denom p = Inr d \<and> entry d j 0 = Fin (1 / 10 ^ 9)"
  using assms
  by (simp add: denom_def bind_err_def np_broadcast_def column_def bdim_def bidx_inside
      map_arr_def EPS_def fsub_def floats_def split: np_vec.splits)

section \<open>Fusion and the endpoints\<close>

lemma fused_at_range: "\<exists>r. fused_at P M idx = Fin r \<and> 0 \<le> r \<and> r \<le> 100"
proof (cases "fle (P ! idx) (Fin 0)")
  case True
  then show ?thesis by (simp add: fused_at_def)
next
  case False
  then show ?thesis using clamp_0_100_range by (simp add: fused_at_def Let_def)
qed

text \<open>
  C4. The fused list has the length of the physics trajectory \<open>P\<close>. At an index with
  \<open>P[idx] <= 0\<close> it is 0, whatever the neural value; at any other index it is the clamp
  of \<open>0.35 * M[idx] + 0.65 * P[idx]\<close>, with \<open>P[idx]\<close> for \<open>M[idx]\<close> when \<open>idx\<close> is beyond
  the neural list \<open>M\<close> (on finite values, the real number
  \<open>max 0 (min 100 (0.35 * ml + 0.65 * ph))\<close>); and every element is finite and in
  \<open>[0, 100]\<close>.
\<close>

theorem fuse_pointwise:
  "length (fuse P M) = length P \<and>
   (\<forall>idx<length P.
      (fle (P ! idx) (Fin 0) \<longrightarrow> fuse P M ! idx = Fin 0) \<and>
      (\<not> fle (P ! idx) (Fin 0) \<longrightarrow>
         fuse P M ! idx =
           clamp_0_100 (fadd (fmul (Fin 0.35) (if idx < length M then M ! idx else P ! idx))
                             (fmul (Fin 0.65) (P ! idx)))) \<and>
      (\<forall>ph ml. P ! idx = Fin ph \<and> 0 < ph \<and> idx < length M \<and> M ! idx = Fin ml \<longrightarrow>
         fuse P M ! idx = Fin (max 0 (min 100 (0.35 * ml + 0.65 * ph)))) \<and>
      (\<exists>r. fuse P M ! idx = Fin r \<and> 0 \<le> r \<and> r \<le> 100))"
proof -
  have at: "fuse P M ! idx = fused_at P M idx" if "idx < length P" for idx
    using that by (simp add: fuse_def)
  have zero: "fle (P ! idx) (Fin 0) \<longrightarrow> fused_at P M idx = Fin 0" for idx
    by (simp add: fused_at_def)
  have blend: "\<not> fle (P ! idx) (Fin 0) \<longrightarrow> fused_at P M idx =
      clamp_0_100 (fadd (fmul (Fin 0.35) (if idx < length M then M ! idx else P ! idx))
                        (fmul (Fin 0.65) (P ! idx)))" for idx
    by (simp add: fused_at_def ML_WEIGHT_def fsub_def Let_def)
  have fin: "\<forall>ph ml. P ! idx = Fin ph \<and> 0 < ph \<and> idx < length M \<and> M ! idx = Fin ml \<longrightarrow>
      fused_at P M idx = Fin (max 0 (min 100 (0.35 * ml + 0.65 * ph)))" for idx
    using blend [of idx] by (auto simp: clamp_0_100_Fin)
  have len: "length (fuse P M) = length P"
    by (simp add: fuse_def)
  have "(fle (P ! idx) (Fin 0) \<longrightarrow> fuse P M ! idx = Fin 0) \<and>
      (\<not> fle (P ! idx) (Fin 0) \<longrightarrow>
         fuse P M ! idx =
           clamp_0_100 (fadd (fmul (Fin 0.35) (if idx < length M then M ! idx else P ! idx))
                             (fmul (Fin 0.65) (P ! idx)))) \<and>
      (\<forall>ph ml. P ! idx = Fin ph \<and> 0 < ph \<and> idx < length M \<and> M ! idx = Fin ml \<longrightarrow>
         fuse P M ! idx = Fin (max 0 (min 100 (0.35 * ml + 0.65 * ph)))) \<and>
      (\<exists>r. fuse P M ! idx = Fin r \<and> 0 \<le> r \<and> r \<le> 100)" if "idx < length P" for idx
    using at [OF that] zero [of idx] blend [of idx] fin [of idx] fused_at_range [of P M idx]
    by simp
  with len show ?thesis by blast
qed

theorem fuse_pointwise_witness:
  "fuse [Fin 100, Fin 50, Fin 0] [Fin 80, Fin 80, Fin 80] = [Fin 93, Fin 60.5, Fin 0] \<and>
   fle ([Fin 100, Fin 50, Fin 0] ! 2) (Fin 0) \<and>
   fuse [Fin 100, Fin 50, Fin 0] [Fin 80, Fin 80, Fin 80] ! 2 = Fin 0 \<and>
   \<not> fle ([Fin 100, Fin 50, Fin 0] ! 1) (Fin 0)"
proof -
  have "fuse [Fin 100, Fin 50, Fin 0] [Fin 80, Fin 80, Fin 80] = [Fin 93, Fin 60.5, Fin 0]"
    by (simp add: fuse_def fused_at_def ML_WEIGHT_def fsub_def clamp_0_100_def py_min_def
        py_max_def upt_rec)
  with fuse_pointwise [of "[Fin 100, Fin 50, Fin 0]" "[Fin 80, Fin 80, Fin 80]"]
  show ?thesis by simp
qed

lemma physics_returns:
  assumes "cs \<noteq> []"
  shows "\<exists>phys t. physics_integrate_soc cs tms s = Inr (phys, t) \<and> phys ! 0 = s"
proof -
  let ?ts = "effective_times (length cs) tms"
  obtain traj d where loop: "integrate_loop cs ?ts (length cs) 1 [s] = (traj, d)"
    by (cases "integrate_loop cs ?ts (length cs) 1 [s]") blast
  have "length ?ts = length cs"
    by (simp add: effective_times_def range_times_def split: option.splits)
  with assms have ne: "?ts \<noteq> []" by auto
  from integrate_loop_prefix [OF loop] have "1 \<le> length traj" "take 1 traj = [s]"
    by simp_all
  then have first: "traj ! 0 = s"
    by (metis One_nat_def nth_Cons_0 nth_take zero_less_one)
  from loop ne first show ?thesis
    by (cases d) (simp_all add: physics_integrate_soc_def)
qed

text \<open>
  C6 (as amended). The single-point operation answers an absent SOC when the \<open>try\<close>
  block raises: the predictor raises, or it returns an empty list and reading its first
  element raises. When the predictor returns a non-empty list the answer is one finite SOC
  in \<open>[0, 100]\<close>, also when the raw network output was not finite; this is the case for
  every bundle of the documented shapes.
\<close>

theorem predict_single_result:
  "(run_neural_net_batch p [current data] [temperature data] [voltage data] = Inl e
      \<longrightarrow> predict_single p data = None) \<and>
   (run_neural_net_batch p [current data] [temperature data] [voltage data] = Inr []
      \<longrightarrow> predict_single p data = None) \<and>
   (run_neural_net_batch p [current data] [temperature data] [voltage data] = Inr (y # ys)
      \<longrightarrow> (\<exists>r. predict_single p data = Some (Fin r) \<and> 0 \<le> r \<and> r \<le> 100)) \<and>
   (shapes_ok p \<longrightarrow> (\<exists>r. predict_single p data = Some (Fin r) \<and> 0 \<le> r \<and> r \<le> 100))"
proof -
  have some: "\<exists>r. predict_single p data = Some (Fin r) \<and> 0 \<le> r \<and> r \<le> 100"
    if "run_neural_net_batch p [current data] [temperature data] [voltage data] = Inr (z # zs)"
    for z zs
    using that clamp_0_100_range [of z] by (auto simp: predict_single_def)
  have "\<exists>r. predict_single p data = Some (Fin r) \<and> 0 \<le> r \<and> r \<le> 100" if sh: "shapes_ok p"
  proof -
    from run_neural_net_batch_ok [OF sh, of "[temperature data]" "[current data]" "[voltage data]"]
    obtain zs where zs:
      "run_neural_net_batch p [current data] [temperature data] [voltage data] = Inr zs"
      "length zs = 1" by auto
    then obtain z where "zs = [z]" by (cases zs) auto
    with zs(1) some show ?thesis by blast
  qed
  with some show ?thesis by (simp add: predict_single_def)
qed

theorem predict_single_result_witness:
  "run_neural_net_batch example_params [Fin 0] [Fin 25] [Fin 345.6] = Inr [Fin 50] \<and>
   predict_single example_params
     \<lparr>current = Fin 0, voltage = Fin 345.6, temperature = Fin 25, time = None\<rparr>
     = Some (Fin 50) \<and>
   run_neural_net_batch (example_params\<lparr>IW := of_rows [[Fin 0, Fin 0]]\<rparr>)
     [Fin 0] [Fin 25] [Fin 345.6] = Inl ValueError \<and>
   predict_single (example_params\<lparr>IW := of_rows [[Fin 0, Fin 0]]\<rparr>)
     \<lparr>current = Fin 0, voltage = Fin 345.6, temperature = Fin 25, time = None\<rparr> = None \<and>
   run_neural_net_batch (example_params\<lparr>b2 := []\<rparr>) [Fin 0] [Fin 25] [Fin 345.6] = Inr [] \<and>
   predict_single (example_params\<lparr>b2 := []\<rparr>)
     \<lparr>current = Fin 0, voltage = Fin 345.6, temperature = Fin 25, time = None\<rparr> = None \<and>
   run_neural_net_batch (example_params\<lparr>LW := of_rows [[Fin 1], [Fin 1]]\<rparr>)
     [Fin 0] [Fin 25] [Fin 345.6] = Inr [Fin 50, Fin 50] \<and>
   predict_single (example_params\<lparr>LW := of_rows [[Fin 1], [Fin 1]]\<rparr>)
     \<lparr>current = Fin 0, voltage = Fin 345.6, temperature = Fin 25, time = None\<rparr>
     = Some (Fin 50)"
proof -
  have a: "run_neural_net_batch example_params [Fin 0] [Fin 25] [Fin 345.6] = Inr [Fin 50]"
    by (simp add: nn_eval)
  have b: "run_neural_net_batch (example_params\<lparr>IW := of_rows [[Fin 0, Fin 0]]\<rparr>)
     [Fin 0] [Fin 25] [Fin 345.6] = Inl ValueError"
    by (simp add: nn_eval)
  have c: "run_neural_net_batch (example_params\<lparr>b2 := []\<rparr>) [Fin 0] [Fin 25] [Fin 345.6]
     = Inr []"
    by (simp add: nn_eval)
  have d: "run_neural_net_batch (example_params\<lparr>LW := of_rows [[Fin 1], [Fin 1]]\<rparr>)
     [Fin 0] [Fin 25] [Fin 345.6] = Inr [Fin 50, Fin 50]"
    by (simp add: nn_eval)
  have v: "clamp_0_100 (Fin 50) = Fin 50"
    by (simp add: clamp_0_100_Fin)
  from predict_single_result [of "example_params\<lparr>IW := of_rows [[Fin 0, Fin 0]]\<rparr>"
      "\<lparr>current = Fin 0, voltage = Fin 345.6, temperature = Fin 25, time = None\<rparr>"
      ValueError] a b c d v
  show ?thesis by (simp add: predict_single_def)
qed

text \<open>
  C6 as stated fails: a NaN sample makes the raw network output NaN, and the answer is the
  number 100, not an absent value.
\<close>

theorem predict_single_nonfinite_counterexample:
  "raw_result example_params [NaN] [Fin 25] [Fin 345.6] = Inr [NaN] \<and>
   predict_single example_params
     \<lparr>current = NaN, voltage = Fin 345.6, temperature = Fin 25, time = None\<rparr>
     = Some (Fin 100)"
  by (simp add: predict_single_def nn_eval)

text \<open>
  C7. When the temperature or the voltage array differs in length from the current
  array, the trajectory operation answers the empty result (no trajectory, no discharge
  time, count 0) and calls neither the predictor nor the integrator.
\<close>

theorem mismatched_lengths_empty_result:
  assumes "length (temperatures data) \<noteq> length (currents data) \<or>
           length (voltages data) \<noteq> length (currents data)"
  shows "predict_cycle p data =
           (\<lparr>soc = [], discharge_time = None, total_points = 0\<rparr>, [])"
  using assms by (auto simp: predict_cycle_def empty_response_def)

theorem mismatched_lengths_empty_result_witness:
  "length (voltages \<lparr>currents = [Fin 1, Fin 1, Fin 1, Fin 1, Fin 1],
                     voltages = [Fin 350, Fin 350, Fin 350, Fin 350],
                     temperatures = [Fin 25, Fin 25, Fin 25, Fin 25, Fin 25],
                     times = None\<rparr>)
     \<noteq> length (currents \<lparr>currents = [Fin 1, Fin 1, Fin 1, Fin 1, Fin 1],
                     voltages = [Fin 350, Fin 350, Fin 350, Fin 350],
                     temperatures = [Fin 25, Fin 25, Fin 25, Fin 25, Fin 25],
                     times = None\<rparr>) \<and>
   predict_cycle example_params
     \<lparr>currents = [Fin 1, Fin 1, Fin 1, Fin 1, Fin 1],
      voltages = [Fin 350, Fin 350, Fin 350, Fin 350],
      temperatures = [Fin 25, Fin 25, Fin 25, Fin 25, Fin 25],
      times = None\<rparr>
     = (\<lparr>soc = [], discharge_time = None, total_points = 0\<rparr>, [])"
  using mismatched_lengths_empty_result [of
      "\<lparr>currents = [Fin 1, Fin 1, Fin 1, Fin 1, Fin 1],
        voltages = [Fin 350, Fin 350, Fin 350, Fin 350],
        temperatures = [Fin 25, Fin 25, Fin 25, Fin 25, Fin 25],
        times = None\<rparr>" example_params]
  by simp

text \<open>
  C10 (as amended). For a non-empty batch for which the predictor returns at least one
  prediction, the start value of the integrator is the first prediction, not the fallback
  100.0: the integrator is called with it, its trajectory starts with it, and the answer
  is the fusion of that trajectory. A bundle of the documented shapes gives a non-empty
  list of predictions for every non-empty batch.
\<close>

theorem start_soc_is_first_prediction:
  "(run_neural_net_batch p (currents data) (temperatures data) (voltages data) = Inr nn_socs \<and>
    nn_socs \<noteq> [] \<and> currents data \<noteq> [] \<longrightarrow>
      START_SOC nn_socs = nn_socs ! 0 \<and>
      snd (predict_cycle p data) =
        [NN_call (currents data) (temperatures data) (voltages data),
         Physics_call (currents data) (request_times data) (nn_socs ! 0)] \<and>
      (\<exists>phys t.
         physics_integrate_soc (currents data) (request_times data) (nn_socs ! 0) = Inr (phys, t) \<and>
         phys ! 0 = nn_socs ! 0 \<and>
         fst (predict_cycle p data) =
           \<lparr>soc = fuse phys nn_socs, discharge_time = Some t,
            total_points = length (fuse phys nn_socs)\<rparr>)) \<and>
   (shapes_ok p \<and> length (temperatures data) = length (currents data) \<and>
    length (voltages data) = length (currents data) \<and> currents data \<noteq> [] \<longrightarrow>
      (\<exists>nn. run_neural_net_batch p (currents data) (temperatures data) (voltages data) = Inr nn \<and>
            nn \<noteq> []))"
proof -
  have first: "START_SOC nn_socs = nn_socs ! 0 \<and>
      snd (predict_cycle p data) =
        [NN_call (currents data) (temperatures data) (voltages data),
         Physics_call (currents data) (request_times data) (nn_socs ! 0)] \<and>
      (\<exists>phys t.
         physics_integrate_soc (currents data) (request_times data) (nn_socs ! 0) = Inr (phys, t) \<and>
         phys ! 0 = nn_socs ! 0 \<and>
         fst (predict_cycle p data) =
           \<lparr>soc = fuse phys nn_socs, discharge_time = Some t,
            total_points = length (fuse phys nn_socs)\<rparr>)"
    if run: "run_neural_net_batch p (currents data) (temperatures data) (voltages data) = Inr nn_socs"
      and nn: "nn_socs \<noteq> []" and ne: "currents data \<noteq> []"
  proof -
    from run_neural_net_batch_lengths [OF run] have
      len: "length (temperatures data) = length (currents data)"
        "length (voltages data) = length (currents data)" by simp_all
    from nn obtain x xs where c: "nn_socs = x # xs" by (cases nn_socs) auto
    from run_neural_net_batch_range [OF run, of 0] c obtain a where
      "x = Fin a" "0 \<le> a" "a \<le> 100" by auto
    with c have s: "START_SOC nn_socs = nn_socs ! 0"
      by (simp add: START_SOC_def)
    from physics_returns [OF ne] obtain phys t where
      ph: "physics_integrate_soc (currents data) (request_times data) (nn_socs ! 0) = Inr (phys, t)"
        "phys ! 0 = nn_socs ! 0" by blast
    from run len s ph(1) have
      "predict_cycle p data =
         (\<lparr>soc = fuse phys nn_socs, discharge_time = Some t,
           total_points = length (fuse phys nn_socs)\<rparr>,
          [NN_call (currents data) (temperatures data) (voltages data),
           Physics_call (currents data) (request_times data) (nn_socs ! 0)])"
      by (simp add: predict_cycle_def Let_def)
    with s ph show ?thesis by auto
  qed
  have second: "\<exists>nn. run_neural_net_batch p (currents data) (temperatures data) (voltages data)
        = Inr nn \<and> nn \<noteq> []"
    if "shapes_ok p \<and> length (temperatures data) = length (currents data) \<and>
        length (voltages data) = length (currents data) \<and> currents data \<noteq> []"
  proof -
    from that run_neural_net_batch_ok [of p "temperatures data" "currents data" "voltages data"]
    obtain nn where "run_neural_net_batch p (currents data) (temperatures data) (voltages data)
        = Inr nn" "length nn = length (currents data)" by auto
    with that show ?thesis by auto
  qed
  from first second show ?thesis by blast
qed

theorem start_soc_is_first_prediction_witness:
  "run_neural_net_batch example_params [Fin (- 48600), Fin (- 48600), Fin 7]
     [Fin 25, Fin 25, Fin 25] [Fin 345.6, Fin 345.6, Fin 345.6] = Inr [Fin 50, Fin 50, Fin 50] \<and>
   START_SOC [Fin 50, Fin 50, Fin 50] = Fin 50 \<and>
   predict_cycle example_params
     \<lparr>currents = [Fin (- 48600), Fin (- 48600), Fin 7],
      voltages = [Fin 345.6, Fin 345.6, Fin 345.6],
      temperatures = [Fin 25, Fin 25, Fin 25], times = None\<rparr>
   = (\<lparr>soc = [Fin 50, Fin 0], discharge_time = Some (Fin 1), total_points = 2\<rparr>,
      [NN_call [Fin (- 48600), Fin (- 48600), Fin 7] [Fin 25, Fin 25, Fin 25]
         [Fin 345.6, Fin 345.6, Fin 345.6],
       Physics_call [Fin (- 48600), Fin (- 48600), Fin 7] None (Fin 50)])"
proof -
  let ?d = "\<lparr>currents = [Fin (- 48600), Fin (- 48600), Fin 7],
      voltages = [Fin 345.6, Fin 345.6, Fin 345.6],
      temperatures = [Fin 25, Fin 25, Fin 25], times = None\<rparr>"
  have run: "run_neural_net_batch example_params (currents ?d) (temperatures ?d) (voltages ?d)
      = Inr [Fin 50, Fin 50, Fin 50]"
    by (simp add: nn_eval)
  have cyc: "predict_cycle example_params ?d
   = (\<lparr>soc = [Fin 50, Fin 0], discharge_time = Some (Fin 1), total_points = 2\<rparr>,
      [NN_call [Fin (- 48600), Fin (- 48600), Fin 7] [Fin 25, Fin 25, Fin 25]
         [Fin 345.6, Fin 345.6, Fin 345.6],
       Physics_call [Fin (- 48600), Fin (- 48600), Fin 7] None (Fin 50)])"
    using run
    by (simp add: predict_cycle_def START_SOC_def request_times_def phys_eval fuse_def
        fused_at_def ML_WEIGHT_def)
  from start_soc_is_first_prediction [of example_params ?d "[Fin 50, Fin 50, Fin 50]"] run cyc
  show ?thesis by simp
qed

text \<open>
  C10 as stated fails for a bundle with an empty output bias: broadcasting makes the
  prediction list empty for a non-empty batch, and the integrator starts from the
  fallback 100.0.
\<close>

theorem start_soc_fallback_counterexample:
  "run_neural_net_batch (example_params\<lparr>b2 := []\<rparr>) [Fin (- 48600), Fin 0]
     [Fin 25, Fin 25] [Fin 345.6, Fin 345.6] = Inr [] \<and>
   predict_cycle (example_params\<lparr>b2 := []\<rparr>)
     \<lparr>currents = [Fin (- 48600), Fin 0], voltages = [Fin 345.6, Fin 345.6],
      temperatures = [Fin 25, Fin 25], times = None\<rparr>
   = (\<lparr>soc = [Fin 100, Fin 50], discharge_time = Some (Fin 1), total_points = 2\<rparr>,
      [NN_call [Fin (- 48600), Fin 0] [Fin 25, Fin 25] [Fin 345.6, Fin 345.6],
       Physics_call [Fin (- 48600), Fin 0] None (Fin 100)])"
proof -
  have run: "run_neural_net_batch (example_params\<lparr>b2 := []\<rparr>) [Fin (- 48600), Fin 0]
     [Fin 25, Fin 25] [Fin 345.6, Fin 345.6] = Inr []"
    by (simp add: nn_eval)
  then show ?thesis
    by (simp add: predict_cycle_def START_SOC_def request_times_def phys_eval fuse_def
        fused_at_def ML_WEIGHT_def)
qed

end
